theory Spec2Isabelle
  imports Main "HOL-Library.Word"
begin

section \<open>The contract deployer allow list (precompile/allow_list.go)\<close>

subsection \<open>Bytes, addresses and hashes\<close>

text \<open>
  Go's \<^verbatim>\<open>common.Address\<close> is \<^verbatim>\<open>[20]byte\<close> and \<^verbatim>\<open>common.Hash\<close> is
  \<^verbatim>\<open>[32]byte\<close>: arrays of a fixed length, compared element by element. They are
  modelled as the types of byte lists of exactly that length; \<open>Abs_address\<close> and
  \<open>Abs_hash\<close> make an array from a list of the right length, \<open>Rep_address\<close> and
  \<open>Rep_hash\<close> give its elements.
\<close>

type_synonym byte = "8 word"

definition AddressLength :: nat where
  "AddressLength = 20"

definition HashLength :: nat where
  "HashLength = 32"

typedef address = "{bs :: byte list. length bs = 20}"
  by (rule exI [of _ "replicate 20 0"]) simp

typedef hash = "{bs :: byte list. length bs = 32}"
  by (rule exI [of _ "replicate 32 0"]) simp

text \<open>
  \<^verbatim>\<open>common.BytesToAddress(b)\<close> and \<^verbatim>\<open>common.BytesToHash(b)\<close> (go-ethereum): if
  \<^verbatim>\<open>b\<close> is longer than the array it is cropped from the left, then it is copied
  right-aligned into the zero array: \<^verbatim>\<open>copy(a[AddressLength-len(b):], b)\<close>.
\<close>

definition BytesToAddress :: "byte list \<Rightarrow> address" where
  "BytesToAddress b =
     (let b' = (if length b > AddressLength then drop (length b - AddressLength) b else b)
      in Abs_address (replicate (AddressLength - length b') 0 @ b'))"

definition BytesToHash :: "byte list \<Rightarrow> hash" where
  "BytesToHash b =
     (let b' = (if length b > HashLength then drop (length b - HashLength) b else b)
      in Abs_hash (replicate (HashLength - length b') 0 @ b'))"

text \<open>
  The composite literal \<^verbatim>\<open>common.Hash{x0, ..., xk}\<close> of Go: the listed elements
  fill the array from index 0, the others are zero. (Go rejects a literal with more than
  32 elements at compile time.)
\<close>

definition Hash_literal :: "byte list \<Rightarrow> hash" where
  "Hash_literal xs = Abs_hash (take HashLength xs @ replicate (HashLength - length xs) 0)"

text \<open>\<^verbatim>\<open>address[:]\<close> and \<^verbatim>\<open>hash.Bytes()\<close>: the bytes of the array as a slice.\<close>

definition Address_Bytes :: "address \<Rightarrow> byte list" where
  "Address_Bytes a = Rep_address a"

definition Hash_Bytes :: "hash \<Rightarrow> byte list" where
  "Hash_Bytes h = Rep_hash h"

text \<open>
  Go's builtin \<^verbatim>\<open>copy(dst, src)\<close>: overwrites the first
  \<^verbatim>\<open>min(len(dst), len(src))\<close> elements of \<^verbatim>\<open>dst\<close>.
\<close>

definition copy :: "byte list \<Rightarrow> byte list \<Rightarrow> byte list" where
  "copy dst src = take (length dst) src @ drop (length src) dst"

subsection \<open>The host: state store, key derivation, gas schedule\<close>

text \<open>
  Modelled from the spec: the \<^verbatim>\<open>StateDB\<close> interface is declared outside
  allow_list.go. The spec (section 6) gives
  \<^verbatim>\<open>StateStore.GetValue(contractAddress, key) -> fixed-width value (zero value if unset)\<close>
  and \<^verbatim>\<open>StateStore.SetValue(contractAddress, key, fixed-width value)\<close>.
\<close>

type_synonym StateDB = "address \<times> hash \<rightharpoonup> hash"

definition GetState :: "StateDB \<Rightarrow> address \<Rightarrow> hash \<Rightarrow> hash" where
  "GetState state a key = (case state (a, key) of None \<Rightarrow> Hash_literal [] | Some v \<Rightarrow> v)"

definition SetState :: "StateDB \<Rightarrow> address \<Rightarrow> hash \<Rightarrow> hash \<Rightarrow> StateDB" where
  "SetState state a key v = state((a, key) \<mapsto> v)"

text \<open>
  Modelled from the spec: \<^verbatim>\<open>CreateAddressKey\<close> is defined outside allow_list.go.
  The spec (section 4.2): the per-address key is a fixed-width value deterministically
  derived from the address alone, the address zero-padded into the key's width.
\<close>

definition CreateAddressKey :: "address \<Rightarrow> hash" where
  "CreateAddressKey a =
     Abs_hash (Rep_address a @ replicate (HashLength - AddressLength) 0)"

text \<open>
  The constants \<^verbatim>\<open>ModifyAllowListGasCost\<close>, \<^verbatim>\<open>ReadAllowListGasCost\<close> (uint64) and
  \<^verbatim>\<open>ModifyAllowListAddress\<close> are declared outside allow_list.go; they are parameters
  of the model.
\<close>

record Params =
  ModifyAllowListGasCost :: "64 word"
  ReadAllowListGasCost :: "64 word"
  ModifyAllowListAddress :: address

subsection \<open>The role model\<close>

type_synonym AllowListRole = hash

definition None_role :: AllowListRole where
  "None_role = Hash_literal []"

definition Deployer :: AllowListRole where
  "Deployer = Hash_literal [1]"

definition Admin :: AllowListRole where
  "Admin = Hash_literal [2]"

definition modifyAllowListInputLength :: nat where
  "modifyAllowListInputLength = AddressLength + HashLength"

definition Valid :: "AllowListRole \<Rightarrow> bool" where
  "Valid s = (s = None_role \<or> s = Deployer \<or> s = Admin)"

definition IsAdmin :: "AllowListRole \<Rightarrow> bool" where
  "IsAdmin s = (s = Admin)"

definition CanDeploy :: "AllowListRole \<Rightarrow> bool" where
  "CanDeploy s = (s = Deployer \<or> s = Admin)"

subsection \<open>Configuration\<close>

record AllowListConfig =
  BlockTimestamp :: "int option"
  AllowListAdmins :: "address list"

definition Timestamp :: "AllowListConfig \<Rightarrow> int option" where
  "Timestamp c = BlockTimestamp c"

definition Configure :: "Params \<Rightarrow> AllowListConfig \<Rightarrow> StateDB \<Rightarrow> StateDB" where
  "Configure p c state =
     fold (\<lambda>adminAddr st. SetState st (ModifyAllowListAddress p) (CreateAddressKey adminAddr) Admin)
       (AllowListAdmins c) state"

subsection \<open>The role store adapter\<close>

definition GetAllowListStatus :: "Params \<Rightarrow> StateDB \<Rightarrow> address \<Rightarrow> AllowListRole" where
  "GetAllowListStatus p state a =
     (let stateSlot = CreateAddressKey a;
          res = GetState state (ModifyAllowListAddress p) stateSlot
      in res)"

definition setAllowListStatus :: "Params \<Rightarrow> StateDB \<Rightarrow> address \<Rightarrow> hash \<Rightarrow> StateDB" where
  "setAllowListStatus p stateDB a status =
     (let addressKey = CreateAddressKey a
      in SetState stateDB (ModifyAllowListAddress p) addressKey status)"

subsection \<open>Packing and unpacking the input of the modify precompile\<close>

text \<open>
  The errors of the source are \<^verbatim>\<open>fmt.Errorf\<close> values; each is a constructor here,
  named after the taxonomy of the spec (section 7):
  \<^item> \<open>UnexpectedStatus\<close>: "unexpected status: %d" (PackModifyAllowList);
  \<^item> \<open>UnexpectedLength\<close>: "unexpected address length: %d not %d";
  \<^item> \<open>InvalidStatus\<close>: "invalid status used as input for allow list precompile: %v";
  \<^item> \<open>InvalidReadLength\<close>: "invalid input length for read allow list: %d";
  \<^item> \<open>InsufficientGas\<close>: "running allow list exceeds gas allowance (%d) < (%d)";
  \<^item> \<open>ReadOnlyViolation\<close>: "cannot modify allow list in read only";
  \<^item> \<open>Unauthorized\<close>: "caller %s cannot modify allow list";
  \<^item> \<open>MalformedInput\<close>: "failed to unpack modify allow list input: %w", and the
    length error of the read precompile.
\<close>

datatype input_error =
  UnexpectedStatus hash
  | UnexpectedLength nat nat
  | InvalidStatus hash
  | InvalidReadLength nat

datatype error =
  InsufficientGas
  | ReadOnlyViolation
  | Unauthorized address
  | MalformedInput input_error

definition PackModifyAllowList :: "address \<Rightarrow> AllowListRole \<Rightarrow> input_error + byte list" where
  "PackModifyAllowList a status =
     (if \<not> Valid status then Inl (UnexpectedStatus status)
      else
        let input = replicate modifyAllowListInputLength 0;
            input = copy input (Address_Bytes a);
            input = take AddressLength input @ copy (drop AddressLength input) (Hash_Bytes status)
        in Inr input)"

definition UnpackModifyAllowList :: "byte list \<Rightarrow> input_error + address \<times> hash" where
  "UnpackModifyAllowList input =
     (if length input \<noteq> modifyAllowListInputLength
      then Inl (UnexpectedLength (length input) modifyAllowListInputLength)
      else
        let a = BytesToAddress (take AddressLength input);
            statusHash = BytesToHash (drop AddressLength input);
            status = statusHash
        in if \<not> Valid status then Inl (InvalidStatus status)
           else Inr (a, statusHash))"

subsection \<open>The two precompiles\<close>

text \<open>
  \<^verbatim>\<open>Run\<close> returns \<^verbatim>\<open>(ret []byte, remainingGas uint64, err error)\<close> and may write
  to the state reached through \<^verbatim>\<open>evm.GetStateDB()\<close>: the result record holds the three
  return values and the state after the call. A \<^verbatim>\<open>nil\<close> slice is the empty list, a
  \<^verbatim>\<open>nil\<close> error is \<open>None\<close>. The calls of \<^verbatim>\<open>log.Info\<close> do not touch the state and are
  left out.
\<close>

record result =
  ret :: "byte list"
  remainingGas :: "64 word"
  err :: "error option"
  stateDB :: StateDB

definition modifyAllowListPrecompile_Run ::
  "Params \<Rightarrow> StateDB \<Rightarrow> address \<Rightarrow> address \<Rightarrow> byte list \<Rightarrow> 64 word \<Rightarrow> bool \<Rightarrow> result" where
  "modifyAllowListPrecompile_Run p evm callerAddr addr input suppliedGas readOnly =
     (if suppliedGas < ModifyAllowListGasCost p
      then \<lparr>ret = [], remainingGas = 0, err = Some InsufficientGas, stateDB = evm\<rparr>
      else
        let remaining = suppliedGas - ModifyAllowListGasCost p
        in if readOnly
           then \<lparr>ret = [], remainingGas = remaining, err = Some ReadOnlyViolation, stateDB = evm\<rparr>
           else
             let callerStatus = GetAllowListStatus p evm callerAddr
             in if \<not> IsAdmin callerStatus
                then \<lparr>ret = [], remainingGas = remaining,
                      err = Some (Unauthorized callerAddr), stateDB = evm\<rparr>
                else
                  (case UnpackModifyAllowList input of
                     Inl e \<Rightarrow>
                       \<lparr>ret = [], remainingGas = remaining,
                        err = Some (MalformedInput e), stateDB = evm\<rparr>
                   | Inr (a, status) \<Rightarrow>
                       \<lparr>ret = [], remainingGas = remaining, err = None,
                        stateDB = setAllowListStatus p evm a status\<rparr>))"

definition modifyAllowListPrecompile_RequiredGas :: "Params \<Rightarrow> byte list \<Rightarrow> 64 word" where
  "modifyAllowListPrecompile_RequiredGas p input = ModifyAllowListGasCost p"

definition readAllowListPrecompile_Run ::
  "Params \<Rightarrow> StateDB \<Rightarrow> address \<Rightarrow> address \<Rightarrow> byte list \<Rightarrow> 64 word \<Rightarrow> bool \<Rightarrow> result" where
  "readAllowListPrecompile_Run p evm callerAddr addr input suppliedGas readOnly =
     (if suppliedGas < ReadAllowListGasCost p
      then \<lparr>ret = [], remainingGas = 0, err = Some InsufficientGas, stateDB = evm\<rparr>
      else
        let remaining = suppliedGas - ReadAllowListGasCost p
        in if length input \<noteq> AddressLength
           then \<lparr>ret = [], remainingGas = remaining,
                 err = Some (MalformedInput (InvalidReadLength (length input))), stateDB = evm\<rparr>
           else
             let readAddress = BytesToAddress input;
                 roleBytes = Hash_Bytes (GetAllowListStatus p evm readAddress)
             in \<lparr>ret = roleBytes, remainingGas = remaining, err = None, stateDB = evm\<rparr>)"

definition readAllowListPrecompile_RequiredGas :: "Params \<Rightarrow> byte list \<Rightarrow> 64 word" where
  "readAllowListPrecompile_RequiredGas p input = ReadAllowListGasCost p"


subsection \<open>Invariant and a concrete chain state\<close>

text \<open>
  Every slot stored under the allow-list address holds a role that \<open>Valid\<close> accepts, or
  is unset.
\<close>

definition roles_valid :: "Params \<Rightarrow> StateDB \<Rightarrow> bool" where
  "roles_valid p state =
     (\<forall>key. case state (ModifyAllowListAddress p, key) of None \<Rightarrow> True | Some v \<Rightarrow> Valid v)"

text \<open>
  Example values for the parameters, three account addresses and the state after
  \<open>Configure\<close> with one admin on the empty store.
\<close>

definition example_params :: Params where
  "example_params =
     \<lparr>ModifyAllowListGasCost = 20000, ReadAllowListGasCost = 5000,
      ModifyAllowListAddress = BytesToAddress [2, 0, 0, 0, 0, 0, 0, 0, 0, 0, 0, 0, 0, 0, 0, 0, 0, 0, 0, 0]\<rparr>"

definition addr_X :: address where
  "addr_X = BytesToAddress [0x58]"

definition addr_Y :: address where
  "addr_Y = BytesToAddress [0x59]"

definition addr_Z :: address where
  "addr_Z = BytesToAddress [0x5A]"

definition example_config :: AllowListConfig where
  "example_config = \<lparr>BlockTimestamp = Some 0, AllowListAdmins = [addr_X]\<rparr>"

definition example_state :: StateDB where
  "example_state = Configure example_params example_config Map.empty"

definition deployer_state :: StateDB where
  "deployer_state = setAllowListStatus example_params example_state addr_Z Deployer"

section \<open>Basic facts about the model\<close>

lemma length_Rep_address: "length (Rep_address a) = 20"
  using Rep_address [of a] by simp

lemma length_Rep_hash: "length (Rep_hash h) = 32"
  using Rep_hash [of h] by simp

lemma Rep_BytesToAddress:
  "Rep_address (BytesToAddress b) =
     (if length b > 20 then drop (length b - 20) b else replicate (20 - length b) 0 @ b)"
  by (simp add: BytesToAddress_def AddressLength_def Let_def Abs_address_inverse)

lemma Rep_BytesToHash:
  "Rep_hash (BytesToHash b) =
     (if length b > 32 then drop (length b - 32) b else replicate (32 - length b) 0 @ b)"
  by (simp add: BytesToHash_def HashLength_def Let_def Abs_hash_inverse)

lemma Rep_Hash_literal:
  "Rep_hash (Hash_literal xs) = take 32 xs @ replicate (32 - length xs) 0"
  by (simp add: Hash_literal_def HashLength_def Abs_hash_inverse)

lemma Rep_CreateAddressKey:
  "Rep_hash (CreateAddressKey a) = Rep_address a @ replicate 12 0"
  by (simp add: CreateAddressKey_def HashLength_def AddressLength_def Abs_hash_inverse
      length_Rep_address)

lemma BytesToAddress_exact:
  "length b = 20 \<Longrightarrow> Rep_address (BytesToAddress b) = b"
  by (simp add: Rep_BytesToAddress)

lemma BytesToHash_exact:
  "length b = 32 \<Longrightarrow> Rep_hash (BytesToHash b) = b"
  by (simp add: Rep_BytesToHash)

lemma BytesToAddress_Rep: "BytesToAddress (Rep_address a) = a"
  by (simp add: BytesToAddress_def AddressLength_def length_Rep_address Rep_address_inverse)

lemma BytesToHash_Rep: "BytesToHash (Rep_hash h) = h"
  by (simp add: BytesToHash_def HashLength_def length_Rep_hash Rep_hash_inverse)

lemma CreateAddressKey_inject: "(CreateAddressKey a = CreateAddressKey b) = (a = b)"
  by (simp add: Rep_hash_inject [symmetric] Rep_CreateAddressKey Rep_address_inject)

lemma Rep_None_role: "Rep_hash None_role = replicate 32 0"
  by (simp add: None_role_def Rep_Hash_literal)

lemma Rep_Deployer: "Rep_hash Deployer = 1 # replicate 31 0"
  by (simp add: Deployer_def Rep_Hash_literal)

lemma Rep_Admin: "Rep_hash Admin = 2 # replicate 31 0"
  by (simp add: Admin_def Rep_Hash_literal)

lemma Valid_bytes:
  "Valid s =
     (Hash_Bytes s = replicate 32 0 \<or> Hash_Bytes s = 1 # replicate 31 0 \<or>
      Hash_Bytes s = 2 # replicate 31 0)"
  by (simp add: Valid_def Hash_Bytes_def Rep_hash_inject [symmetric] Rep_None_role Rep_Deployer
      Rep_Admin)

lemma replicate_32: "replicate 32 x = x # replicate 31 x"
  by (simp add: eval_nat_numeral)

lemma roles_distinct:
  "None_role \<noteq> Deployer" "None_role \<noteq> Admin" "Deployer \<noteq> Admin"
  "Deployer \<noteq> None_role" "Admin \<noteq> None_role" "Admin \<noteq> Deployer"
  by (simp_all add: Rep_hash_inject [symmetric] Rep_None_role Rep_Deployer Rep_Admin replicate_32)

lemma GetAllowListStatus_eq:
  "GetAllowListStatus p state a =
     (case state (ModifyAllowListAddress p, CreateAddressKey a) of
        None \<Rightarrow> None_role | Some v \<Rightarrow> v)"
  by (simp add: GetAllowListStatus_def GetState_def None_role_def Let_def split: option.splits)

lemma setAllowListStatus_eq:
  "setAllowListStatus p state a s = state((ModifyAllowListAddress p, CreateAddressKey a) \<mapsto> s)"
  by (simp add: setAllowListStatus_def SetState_def)

lemma addr_distinct:
  "addr_X \<noteq> addr_Y" "addr_X \<noteq> addr_Z" "addr_Y \<noteq> addr_Z"
  "addr_Y \<noteq> addr_X" "addr_Z \<noteq> addr_X" "addr_Z \<noteq> addr_Y"
  by (simp_all add: addr_X_def addr_Y_def addr_Z_def Rep_address_inject [symmetric]
      Rep_BytesToAddress)

lemma example_state_eq:
  "example_state =
     [(ModifyAllowListAddress example_params, CreateAddressKey addr_X) \<mapsto> Admin]"
  by (simp add: example_state_def Configure_def example_config_def SetState_def)

lemma status_X: "GetAllowListStatus example_params example_state addr_X = Admin"
  by (simp add: GetAllowListStatus_eq example_state_eq)

lemma status_Y: "GetAllowListStatus example_params example_state addr_Y = None_role"
  by (simp add: GetAllowListStatus_eq example_state_eq CreateAddressKey_inject addr_distinct)

lemma status_Z: "GetAllowListStatus example_params example_state addr_Z = None_role"
  by (simp add: GetAllowListStatus_eq example_state_eq CreateAddressKey_inject addr_distinct)

lemma status_Z_deployer: "GetAllowListStatus example_params deployer_state addr_Z = Deployer"
  by (simp add: GetAllowListStatus_eq deployer_state_def setAllowListStatus_eq)

lemma Valid_roles: "Valid None_role" "Valid Deployer" "Valid Admin"
  by (simp_all add: Valid_def)

lemma PackModifyAllowList_Valid:
  "Valid status \<Longrightarrow> PackModifyAllowList a status = Inr (Address_Bytes a @ Hash_Bytes status)"
  by (simp add: PackModifyAllowList_def copy_def modifyAllowListInputLength_def
      AddressLength_def HashLength_def Address_Bytes_def Hash_Bytes_def
      length_Rep_address length_Rep_hash Let_def)

lemma UnpackModifyAllowList_encoding:
  "Valid status \<Longrightarrow>
     UnpackModifyAllowList (Address_Bytes a @ Hash_Bytes status) = Inr (a, status)"
  by (simp add: UnpackModifyAllowList_def modifyAllowListInputLength_def
      AddressLength_def HashLength_def Address_Bytes_def Hash_Bytes_def
      length_Rep_address length_Rep_hash Let_def
      BytesToAddress_Rep [unfolded AddressLength_def] BytesToHash_Rep)

lemma UnpackModifyAllowList_Inr:
  "UnpackModifyAllowList input = Inr (a, s) \<Longrightarrow>
     length input = 52 \<and> Valid s \<and> a = BytesToAddress (take 20 input) \<and>
     s = BytesToHash (drop 20 input)"
  by (auto simp add: UnpackModifyAllowList_def modifyAllowListInputLength_def
      AddressLength_def HashLength_def Let_def split: if_splits)

lemma modify_Run_gas_low:
  "suppliedGas < ModifyAllowListGasCost p \<Longrightarrow>
     modifyAllowListPrecompile_Run p evm callerAddr addr input suppliedGas readOnly =
       \<lparr>ret = [], remainingGas = 0, err = Some InsufficientGas, stateDB = evm\<rparr>"
  by (simp add: modifyAllowListPrecompile_Run_def)

lemma modify_Run_readOnly:
  "ModifyAllowListGasCost p \<le> suppliedGas \<Longrightarrow>
     modifyAllowListPrecompile_Run p evm callerAddr addr input suppliedGas True =
       \<lparr>ret = [], remainingGas = suppliedGas - ModifyAllowListGasCost p,
        err = Some ReadOnlyViolation, stateDB = evm\<rparr>"
  by (simp add: modifyAllowListPrecompile_Run_def not_less [symmetric] Let_def)

lemma modify_Run_not_admin:
  "ModifyAllowListGasCost p \<le> suppliedGas \<Longrightarrow>
   \<not> IsAdmin (GetAllowListStatus p evm callerAddr) \<Longrightarrow>
     modifyAllowListPrecompile_Run p evm callerAddr addr input suppliedGas False =
       \<lparr>ret = [], remainingGas = suppliedGas - ModifyAllowListGasCost p,
        err = Some (Unauthorized callerAddr), stateDB = evm\<rparr>"
  by (simp add: modifyAllowListPrecompile_Run_def not_less [symmetric] Let_def)

lemma modify_Run_admin:
  "ModifyAllowListGasCost p \<le> suppliedGas \<Longrightarrow>
   GetAllowListStatus p evm callerAddr = Admin \<Longrightarrow>
     modifyAllowListPrecompile_Run p evm callerAddr addr input suppliedGas False =
       (case UnpackModifyAllowList input of
          Inl e \<Rightarrow>
            \<lparr>ret = [], remainingGas = suppliedGas - ModifyAllowListGasCost p,
             err = Some (MalformedInput e), stateDB = evm\<rparr>
        | Inr (a, status) \<Rightarrow>
            \<lparr>ret = [], remainingGas = suppliedGas - ModifyAllowListGasCost p, err = None,
             stateDB = setAllowListStatus p evm a status\<rparr>)"
  by (simp add: modifyAllowListPrecompile_Run_def not_less [symmetric] IsAdmin_def Let_def)

lemma read_Run_gas_low:
  "suppliedGas < ReadAllowListGasCost p \<Longrightarrow>
     readAllowListPrecompile_Run p evm callerAddr addr input suppliedGas readOnly =
       \<lparr>ret = [], remainingGas = 0, err = Some InsufficientGas, stateDB = evm\<rparr>"
  by (simp add: readAllowListPrecompile_Run_def)

lemma read_Run_enough:
  "ReadAllowListGasCost p \<le> suppliedGas \<Longrightarrow>
     readAllowListPrecompile_Run p evm callerAddr addr input suppliedGas readOnly =
       (if length input \<noteq> 20
        then \<lparr>ret = [], remainingGas = suppliedGas - ReadAllowListGasCost p,
              err = Some (MalformedInput (InvalidReadLength (length input))), stateDB = evm\<rparr>
        else \<lparr>ret = Hash_Bytes (GetAllowListStatus p evm (BytesToAddress input)),
              remainingGas = suppliedGas - ReadAllowListGasCost p, err = None, stateDB = evm\<rparr>)"
  by (simp add: readAllowListPrecompile_Run_def not_less [symmetric] AddressLength_def Let_def)

lemma modify_Run_stateDB_cases:
  "stateDB (modifyAllowListPrecompile_Run p evm callerAddr addr input suppliedGas readOnly) = evm \<and>
   err (modifyAllowListPrecompile_Run p evm callerAddr addr input suppliedGas readOnly) \<noteq> None
   \<or> (\<exists>a s. Valid s \<and> UnpackModifyAllowList input = Inr (a, s) \<and>
        modifyAllowListPrecompile_Run p evm callerAddr addr input suppliedGas readOnly =
          \<lparr>ret = [], remainingGas = suppliedGas - ModifyAllowListGasCost p, err = None,
           stateDB = setAllowListStatus p evm a s\<rparr>)"
  by (auto simp add: modifyAllowListPrecompile_Run_def Let_def
      dest: UnpackModifyAllowList_Inr split: sum.splits)

lemma read_Run_stateDB:
  "stateDB (readAllowListPrecompile_Run p evm callerAddr addr input suppliedGas readOnly) = evm"
  by (simp add: readAllowListPrecompile_Run_def Let_def)

lemma last_byte_role_invalid:
  assumes "v \<noteq> 0"
  shows "\<not> Valid (BytesToHash (replicate 31 0 @ [v]))"
proof -
  have rep: "Rep_hash (BytesToHash (replicate 31 0 @ [v])) = replicate 31 0 @ [v]"
    by (simp add: Rep_BytesToHash)
  have l: "last (Rep_hash (BytesToHash (replicate 31 0 @ [v]))) = v"
    by (simp add: rep)
  have "last (Rep_hash None_role) = 0" "last (Rep_hash Deployer) = 0" "last (Rep_hash Admin) = 0"
    by (simp_all add: Rep_None_role Rep_Deployer Rep_Admin)
  with l assms show ?thesis
    by (auto simp add: Valid_def)
qed

lemma roles_valid_update:
  assumes "roles_valid p state" and "Valid s"
  shows "roles_valid p (state((ModifyAllowListAddress p, key) \<mapsto> s))"
  using assms by (simp add: roles_valid_def)

lemma roles_valid_fold_Admin:
  "roles_valid p state \<Longrightarrow>
     roles_valid p
       (fold (\<lambda>adminAddr st. SetState st (ModifyAllowListAddress p) (CreateAddressKey adminAddr) Admin)
          admins state)"
proof (induction admins arbitrary: state)
  case Nil
  then show ?case by simp
next
  case (Cons adminAddr admins)
  from Cons.prems have
    "roles_valid p (SetState state (ModifyAllowListAddress p) (CreateAddressKey adminAddr) Admin)"
    by (simp add: SetState_def roles_valid_update Valid_roles)
  then show ?case
    by (simp add: Cons.IH)
qed

section \<open>The claims\<close>

text \<open>
  C1. The spec gives the encodings None = all zero bytes, Deployer = all zero except the
  last byte = 1, Admin = all zero except the last byte = 2. The source declares
  \<^verbatim>\<open>common.Hash{1}\<close> and \<^verbatim>\<open>common.Hash{2}\<close>: the byte at index 0, the first one, is
  set. The encodings with the last byte set are different values, the validity check
  refuses them, and the modify precompile called by an admin with the target followed by
  thirty-one zero bytes and a final byte 1 fails on the decoding and stores nothing.
\<close>

theorem C1_roles_use_first_byte:
  "Hash_Bytes None_role = replicate 32 0 \<and>
   Hash_Bytes Deployer = 1 # replicate 31 0 \<and>
   Hash_Bytes Admin = 2 # replicate 31 0 \<and>
   Hash_Bytes Deployer \<noteq> replicate 31 0 @ [1] \<and>
   Hash_Bytes Admin \<noteq> replicate 31 0 @ [2] \<and>
   Valid (BytesToHash (replicate 31 0 @ [1])) = False \<and>
   Valid (BytesToHash (replicate 31 0 @ [2])) = False \<and>
   modifyAllowListPrecompile_Run example_params example_state addr_X addr_X
       (Address_Bytes addr_Y @ replicate 31 0 @ [1]) 20000 False =
     \<lparr>ret = [], remainingGas = 0,
      err = Some (MalformedInput (InvalidStatus (BytesToHash (replicate 31 0 @ [1])))),
      stateDB = example_state\<rparr>"
proof -
  have inv1: "\<not> Valid (BytesToHash (replicate 31 0 @ [1]))"
    and inv2: "\<not> Valid (BytesToHash (replicate 31 0 @ [2]))"
    by (rule last_byte_role_invalid, simp)+
  have unpack: "UnpackModifyAllowList (Address_Bytes addr_Y @ replicate 31 0 @ [1]) =
      Inl (InvalidStatus (BytesToHash (replicate 31 0 @ [1])))"
    using inv1
    by (simp add: UnpackModifyAllowList_def modifyAllowListInputLength_def AddressLength_def
        HashLength_def Address_Bytes_def length_Rep_address Let_def)
  have gas: "ModifyAllowListGasCost example_params \<le> 20000"
    by (simp add: example_params_def)
  have run: "modifyAllowListPrecompile_Run example_params example_state addr_X addr_X
       (Address_Bytes addr_Y @ replicate 31 0 @ [1]) 20000 False =
     \<lparr>ret = [], remainingGas = 0,
      err = Some (MalformedInput (InvalidStatus (BytesToHash (replicate 31 0 @ [1])))),
      stateDB = example_state\<rparr>"
    by (simp add: modify_Run_admin [OF gas status_X] unpack) (simp add: example_params_def)
  have ne: "(1::byte) # replicate 31 0 \<noteq> replicate 31 0 @ [1]"
    "(2::byte) # replicate 31 0 \<noteq> replicate 31 0 @ [2]"
    by (simp_all add: eval_nat_numeral)
  show ?thesis
    using inv1 inv2 run ne
    by (simp add: Hash_Bytes_def Rep_None_role Rep_Deployer Rep_Admin)
qed

text \<open>
  C2. When the stored role of the caller is Admin, the read-only flag is unset, the
  supplied gas covers \<^verbatim>\<open>ModifyAllowListGasCost\<close> and the input is the address of the
  target followed by the 32 bytes of a valid role (which is what
  \<open>PackModifyAllowList\<close> builds), the modify precompile returns an empty output and
  no error, the state after the call is the state before with the one slot of the target
  set to that role, and \<open>GetAllowListStatus\<close> of the target is that role.
\<close>

theorem C2_modify_by_admin:
  assumes "GetAllowListStatus p evm callerAddr = Admin"
    and "Valid role"
    and "ModifyAllowListGasCost p \<le> suppliedGas"
    and "input = Address_Bytes targetAddress @ Hash_Bytes role"
  shows "length input = AddressLength + HashLength \<and>
    PackModifyAllowList targetAddress role = Inr input \<and>
    modifyAllowListPrecompile_Run p evm callerAddr addr input suppliedGas False =
      \<lparr>ret = [], remainingGas = suppliedGas - ModifyAllowListGasCost p, err = None,
       stateDB = evm((ModifyAllowListAddress p, CreateAddressKey targetAddress) \<mapsto> role)\<rparr> \<and>
    GetAllowListStatus p
      (stateDB (modifyAllowListPrecompile_Run p evm callerAddr addr input suppliedGas False))
      targetAddress = role"
proof -
  have len: "length input = AddressLength + HashLength"
    using assms(4)
    by (simp add: Address_Bytes_def Hash_Bytes_def length_Rep_address length_Rep_hash
        AddressLength_def HashLength_def)
  have pack: "PackModifyAllowList targetAddress role = Inr input"
    using assms(2,4) by (simp add: PackModifyAllowList_Valid)
  have unpack: "UnpackModifyAllowList input = Inr (targetAddress, role)"
    using assms(2,4) by (simp add: UnpackModifyAllowList_encoding)
  have run: "modifyAllowListPrecompile_Run p evm callerAddr addr input suppliedGas False =
      \<lparr>ret = [], remainingGas = suppliedGas - ModifyAllowListGasCost p, err = None,
       stateDB = evm((ModifyAllowListAddress p, CreateAddressKey targetAddress) \<mapsto> role)\<rparr>"
    by (simp add: modify_Run_admin [OF assms(3) assms(1)] unpack setAllowListStatus_eq)
  have get: "GetAllowListStatus p
      (stateDB (modifyAllowListPrecompile_Run p evm callerAddr addr input suppliedGas False))
      targetAddress = role"
    by (simp add: run GetAllowListStatus_eq)
  from len pack run get show ?thesis by blast
qed

theorem C2_modify_by_admin_witness:
  "GetAllowListStatus example_params example_state addr_X = Admin \<and>
   Valid Deployer \<and>
   ModifyAllowListGasCost example_params \<le> 20001 \<and>
   modifyAllowListPrecompile_Run example_params example_state addr_X addr_X
       (Address_Bytes addr_Y @ Hash_Bytes Deployer) 20001 False =
     \<lparr>ret = [], remainingGas = 1, err = None,
      stateDB = example_state((ModifyAllowListAddress example_params, CreateAddressKey addr_Y)
        \<mapsto> Deployer)\<rparr> \<and>
   GetAllowListStatus example_params
     (stateDB (modifyAllowListPrecompile_Run example_params example_state addr_X addr_X
       (Address_Bytes addr_Y @ Hash_Bytes Deployer) 20001 False)) addr_Y = Deployer"
proof -
  have gas: "ModifyAllowListGasCost example_params \<le> 20001"
    by (simp add: example_params_def)
  have rem: "(20001::64 word) - ModifyAllowListGasCost example_params = 1"
    by (simp add: example_params_def)
  show ?thesis
    using C2_modify_by_admin [OF status_X Valid_roles(2) gas refl, of addr_Y addr_X]
      status_X Valid_roles(2) gas
    by (simp add: rem GetAllowListStatus_eq)
qed

text \<open>
  C3. When the stored role of the caller is None or Deployer, the read-only flag is unset
  and the supplied gas covers \<^verbatim>\<open>ModifyAllowListGasCost\<close>, the modify precompile fails
  with Unauthorized for every input byte string, well-formed or not: the remaining gas is
  the supplied gas minus the cost and the state is the one before the call. The role of
  the caller is checked before the input is decoded.
\<close>

theorem C3_non_admin_unauthorized:
  assumes "GetAllowListStatus p evm callerAddr = None_role \<or>
           GetAllowListStatus p evm callerAddr = Deployer"
    and "ModifyAllowListGasCost p \<le> suppliedGas"
  shows "modifyAllowListPrecompile_Run p evm callerAddr addr input suppliedGas False =
      \<lparr>ret = [], remainingGas = suppliedGas - ModifyAllowListGasCost p,
       err = Some (Unauthorized callerAddr), stateDB = evm\<rparr>"
proof -
  from assms(1) have "\<not> IsAdmin (GetAllowListStatus p evm callerAddr)"
    by (auto simp add: IsAdmin_def roles_distinct)
  with assms(2) show ?thesis
    by (rule modify_Run_not_admin)
qed

theorem C3_non_admin_unauthorized_witness:
  "(GetAllowListStatus example_params example_state addr_Z = None_role \<or>
    GetAllowListStatus example_params example_state addr_Z = Deployer) \<and>
   ModifyAllowListGasCost example_params \<le> 20005 \<and>
   modifyAllowListPrecompile_Run example_params example_state addr_Z addr_X [7, 7, 7] 20005 False =
     \<lparr>ret = [], remainingGas = 5, err = Some (Unauthorized addr_Z), stateDB = example_state\<rparr> \<and>
   (GetAllowListStatus example_params deployer_state addr_Z = None_role \<or>
    GetAllowListStatus example_params deployer_state addr_Z = Deployer) \<and>
   modifyAllowListPrecompile_Run example_params deployer_state addr_Z addr_X
       (Address_Bytes addr_Y @ Hash_Bytes Admin) 20005 False =
     \<lparr>ret = [], remainingGas = 5, err = Some (Unauthorized addr_Z), stateDB = deployer_state\<rparr>"
proof -
  have gas: "ModifyAllowListGasCost example_params \<le> 20005"
    by (simp add: example_params_def)
  have rem: "(20005::64 word) - ModifyAllowListGasCost example_params = 5"
    by (simp add: example_params_def)
  have z1: "GetAllowListStatus example_params example_state addr_Z = None_role \<or>
    GetAllowListStatus example_params example_state addr_Z = Deployer"
    by (simp add: status_Z)
  have z2: "GetAllowListStatus example_params deployer_state addr_Z = None_role \<or>
    GetAllowListStatus example_params deployer_state addr_Z = Deployer"
    by (simp add: status_Z_deployer)
  show ?thesis
    using C3_non_admin_unauthorized [OF z1 gas, of addr_X "[7, 7, 7]"]
      C3_non_admin_unauthorized [OF z2 gas, of addr_X "Address_Bytes addr_Y @ Hash_Bytes Admin"]
      z1 z2 gas
    by (simp add: rem)
qed

text \<open>
  C4. When the read-only flag is set and the supplied gas covers
  \<^verbatim>\<open>ModifyAllowListGasCost\<close>, the modify precompile fails with ReadOnlyViolation for
  every caller, whatever its stored role, and every input: the remaining gas is the
  supplied gas minus the cost and the state is the one before the call.
\<close>

theorem C4_read_only_violation:
  assumes "ModifyAllowListGasCost p \<le> suppliedGas"
  shows "modifyAllowListPrecompile_Run p evm callerAddr addr input suppliedGas True =
      \<lparr>ret = [], remainingGas = suppliedGas - ModifyAllowListGasCost p,
       err = Some ReadOnlyViolation, stateDB = evm\<rparr>"
  using assms by (rule modify_Run_readOnly)

theorem C4_read_only_violation_witness:
  "ModifyAllowListGasCost example_params \<le> 20005 \<and>
   GetAllowListStatus example_params example_state addr_X = Admin \<and>
   modifyAllowListPrecompile_Run example_params example_state addr_X addr_X
       (Address_Bytes addr_Y @ Hash_Bytes Deployer) 20005 True =
     \<lparr>ret = [], remainingGas = 5, err = Some ReadOnlyViolation, stateDB = example_state\<rparr> \<and>
   modifyAllowListPrecompile_Run example_params example_state addr_Z addr_X [] 20005 True =
     \<lparr>ret = [], remainingGas = 5, err = Some ReadOnlyViolation, stateDB = example_state\<rparr>"
proof -
  have gas: "ModifyAllowListGasCost example_params \<le> 20005"
    by (simp add: example_params_def)
  have rem: "(20005::64 word) - ModifyAllowListGasCost example_params = 5"
    by (simp add: example_params_def)
  show ?thesis
    using C4_read_only_violation [OF gas, of example_state addr_X addr_X
        "Address_Bytes addr_Y @ Hash_Bytes Deployer"]
      C4_read_only_violation [OF gas, of example_state addr_Z addr_X "[]"]
      gas status_X
    by (simp add: rem)
qed

text \<open>
  C5. With enough gas, the read-only flag unset and an Admin caller, the modify precompile
  fails with MalformedInput and leaves the state as it was when the length of the input
  is not \<open>AddressLength + HashLength\<close>, and when the role bytes are thirty-one zero
  bytes followed by a last byte outside 0, 1, 2. With enough gas the read precompile fails
  with MalformedInput when the length of the input is not \<open>AddressLength\<close>. In each
  case the remaining gas is the supplied gas minus the cost of the entry point.
\<close>

theorem C5_malformed_input:
  "(ModifyAllowListGasCost p \<le> suppliedGas \<and>
    GetAllowListStatus p evm callerAddr = Admin \<and>
    length input \<noteq> AddressLength + HashLength \<longrightarrow>
      modifyAllowListPrecompile_Run p evm callerAddr addr input suppliedGas False =
        \<lparr>ret = [], remainingGas = suppliedGas - ModifyAllowListGasCost p,
         err = Some (MalformedInput (UnexpectedLength (length input) (AddressLength + HashLength))),
         stateDB = evm\<rparr>) \<and>
   (ModifyAllowListGasCost p \<le> suppliedGas \<and>
    GetAllowListStatus p evm callerAddr = Admin \<and>
    length a = AddressLength \<and> v \<notin> {0, 1, 2} \<longrightarrow>
      modifyAllowListPrecompile_Run p evm callerAddr addr
          (a @ replicate 31 0 @ [v]) suppliedGas False =
        \<lparr>ret = [], remainingGas = suppliedGas - ModifyAllowListGasCost p,
         err = Some (MalformedInput (InvalidStatus (BytesToHash (replicate 31 0 @ [v])))),
         stateDB = evm\<rparr>) \<and>
   (ReadAllowListGasCost p \<le> suppliedGas \<and> length input \<noteq> AddressLength \<longrightarrow>
      readAllowListPrecompile_Run p evm callerAddr addr input suppliedGas readOnly =
        \<lparr>ret = [], remainingGas = suppliedGas - ReadAllowListGasCost p,
         err = Some (MalformedInput (InvalidReadLength (length input))), stateDB = evm\<rparr>)"
proof (intro conjI impI)
  assume h: "ModifyAllowListGasCost p \<le> suppliedGas \<and>
    GetAllowListStatus p evm callerAddr = Admin \<and>
    length input \<noteq> AddressLength + HashLength"
  then have "UnpackModifyAllowList input =
      Inl (UnexpectedLength (length input) (AddressLength + HashLength))"
    by (simp add: UnpackModifyAllowList_def modifyAllowListInputLength_def)
  with h show "modifyAllowListPrecompile_Run p evm callerAddr addr input suppliedGas False =
        \<lparr>ret = [], remainingGas = suppliedGas - ModifyAllowListGasCost p,
         err = Some (MalformedInput (UnexpectedLength (length input) (AddressLength + HashLength))),
         stateDB = evm\<rparr>"
    by (simp add: modify_Run_admin)
next
  assume h: "ModifyAllowListGasCost p \<le> suppliedGas \<and>
    GetAllowListStatus p evm callerAddr = Admin \<and>
    length a = AddressLength \<and> v \<notin> {0, 1, 2}"
  then have "\<not> Valid (BytesToHash (replicate 31 0 @ [v]))"
    by (simp add: last_byte_role_invalid)
  with h have "UnpackModifyAllowList (a @ replicate 31 0 @ [v]) =
      Inl (InvalidStatus (BytesToHash (replicate 31 0 @ [v])))"
    by (simp add: UnpackModifyAllowList_def modifyAllowListInputLength_def AddressLength_def
        HashLength_def Let_def)
  with h show "modifyAllowListPrecompile_Run p evm callerAddr addr
          (a @ replicate 31 0 @ [v]) suppliedGas False =
        \<lparr>ret = [], remainingGas = suppliedGas - ModifyAllowListGasCost p,
         err = Some (MalformedInput (InvalidStatus (BytesToHash (replicate 31 0 @ [v])))),
         stateDB = evm\<rparr>"
    by (simp add: modify_Run_admin)
next
  assume "ReadAllowListGasCost p \<le> suppliedGas \<and> length input \<noteq> AddressLength"
  then show "readAllowListPrecompile_Run p evm callerAddr addr input suppliedGas readOnly =
        \<lparr>ret = [], remainingGas = suppliedGas - ReadAllowListGasCost p,
         err = Some (MalformedInput (InvalidReadLength (length input))), stateDB = evm\<rparr>"
    by (simp add: read_Run_enough AddressLength_def)
qed

theorem C5_malformed_input_witness:
  "ModifyAllowListGasCost example_params \<le> 20005 \<and>
   GetAllowListStatus example_params example_state addr_X = Admin \<and>
   length [1::byte, 2, 3] \<noteq> AddressLength + HashLength \<and>
   modifyAllowListPrecompile_Run example_params example_state addr_X addr_X [1, 2, 3] 20005 False =
     \<lparr>ret = [], remainingGas = 5,
      err = Some (MalformedInput (UnexpectedLength 3 52)), stateDB = example_state\<rparr> \<and>
   length (Address_Bytes addr_Y) = AddressLength \<and> (3::byte) \<notin> {0, 1, 2} \<and>
   modifyAllowListPrecompile_Run example_params example_state addr_X addr_X
       (Address_Bytes addr_Y @ replicate 31 0 @ [3]) 20005 False =
     \<lparr>ret = [], remainingGas = 5,
      err = Some (MalformedInput (InvalidStatus (BytesToHash (replicate 31 0 @ [3])))),
      stateDB = example_state\<rparr> \<and>
   ReadAllowListGasCost example_params \<le> 5005 \<and>
   length [1::byte, 2, 3] \<noteq> AddressLength \<and>
   readAllowListPrecompile_Run example_params example_state addr_Z addr_X [1, 2, 3] 5005 True =
     \<lparr>ret = [], remainingGas = 5,
      err = Some (MalformedInput (InvalidReadLength 3)), stateDB = example_state\<rparr>"
proof -
  have gas: "ModifyAllowListGasCost example_params \<le> 20005"
    and rgas: "ReadAllowListGasCost example_params \<le> 5005"
    by (simp_all add: example_params_def)
  have rem: "(20005::64 word) - ModifyAllowListGasCost example_params = 5"
    and rrem: "(5005::64 word) - ReadAllowListGasCost example_params = 5"
    by (simp_all add: example_params_def)
  have len: "length (Address_Bytes addr_Y) = AddressLength"
    by (simp add: Address_Bytes_def length_Rep_address AddressLength_def)
  have l3: "length [1::byte, 2, 3] \<noteq> AddressLength + HashLength"
    "length [1::byte, 2, 3] \<noteq> AddressLength"
    by (simp_all add: AddressLength_def HashLength_def)
  have v: "(3::byte) \<notin> {0, 1, 2}"
    by simp
  have sum: "AddressLength + HashLength = 52"
    by (simp add: AddressLength_def HashLength_def)
  note c5 = C5_malformed_input [where p = example_params and evm = example_state
      and addr = addr_X and a = "Address_Bytes addr_Y" and v = 3 and input = "[1, 2, 3]"
      and readOnly = True]
  from c5 [where callerAddr = addr_X and suppliedGas = 20005] gas status_X l3(1) have m1:
    "modifyAllowListPrecompile_Run example_params example_state addr_X addr_X [1, 2, 3] 20005 False =
     \<lparr>ret = [], remainingGas = 5,
      err = Some (MalformedInput (UnexpectedLength 3 52)), stateDB = example_state\<rparr>"
    by (simp add: rem sum)
  from c5 [where callerAddr = addr_X and suppliedGas = 20005] gas status_X len v have m2:
    "modifyAllowListPrecompile_Run example_params example_state addr_X addr_X
       (Address_Bytes addr_Y @ replicate 31 0 @ [3]) 20005 False =
     \<lparr>ret = [], remainingGas = 5,
      err = Some (MalformedInput (InvalidStatus (BytesToHash (replicate 31 0 @ [3])))),
      stateDB = example_state\<rparr>"
    by (simp add: rem)
  from c5 [where callerAddr = addr_Z and suppliedGas = 5005] rgas l3(2) have m3:
    "readAllowListPrecompile_Run example_params example_state addr_Z addr_X [1, 2, 3] 5005 True =
     \<lparr>ret = [], remainingGas = 5,
      err = Some (MalformedInput (InvalidReadLength 3)), stateDB = example_state\<rparr>"
    by (simp add: rrem)
  from gas rgas status_X len l3 v m1 m2 m3 show ?thesis
    by blast
qed

text \<open>
  C6. Whenever the modify precompile returns an error, the state after the call is the
  state before it; when it returns no error, the state after is the state before with
  exactly one slot under the allow-list address written. The read precompile never
  changes the state, with or without an error.
\<close>

theorem C6_errors_leave_state:
  "(err (modifyAllowListPrecompile_Run p evm callerAddr addr input suppliedGas readOnly) \<noteq> None \<longrightarrow>
      stateDB (modifyAllowListPrecompile_Run p evm callerAddr addr input suppliedGas readOnly) = evm) \<and>
   (err (modifyAllowListPrecompile_Run p evm callerAddr addr input suppliedGas readOnly) = None \<longrightarrow>
      (\<exists>a s. stateDB (modifyAllowListPrecompile_Run p evm callerAddr addr input suppliedGas readOnly) =
         evm((ModifyAllowListAddress p, CreateAddressKey a) \<mapsto> s))) \<and>
   stateDB (readAllowListPrecompile_Run p evm callerAddr addr input suppliedGas readOnly) = evm"
proof -
  let ?r = "modifyAllowListPrecompile_Run p evm callerAddr addr input suppliedGas readOnly"
  from modify_Run_stateDB_cases [of p evm callerAddr addr input suppliedGas readOnly]
  have m: "(err ?r \<noteq> None \<longrightarrow> stateDB ?r = evm) \<and>
    (err ?r = None \<longrightarrow>
      (\<exists>a s. stateDB ?r = evm((ModifyAllowListAddress p, CreateAddressKey a) \<mapsto> s)))"
  proof (elim disjE conjE exE)
    assume "stateDB ?r = evm" "err ?r \<noteq> None"
    then show ?thesis by blast
  next
    fix a s
    assume "?r = \<lparr>ret = [], remainingGas = suppliedGas - ModifyAllowListGasCost p, err = None,
           stateDB = setAllowListStatus p evm a s\<rparr>"
    then have "err ?r = None"
      and "stateDB ?r = evm((ModifyAllowListAddress p, CreateAddressKey a) \<mapsto> s)"
      by (simp_all add: setAllowListStatus_eq)
    then show ?thesis by blast
  qed
  with read_Run_stateDB [of p evm callerAddr addr input suppliedGas readOnly]
  show ?thesis by blast
qed

theorem C6_errors_leave_state_witness:
  "err (modifyAllowListPrecompile_Run example_params example_state addr_X addr_X [] 5 False) \<noteq> None \<and>
   stateDB (modifyAllowListPrecompile_Run example_params example_state addr_X addr_X [] 5 False) =
     example_state \<and>
   err (modifyAllowListPrecompile_Run example_params example_state addr_X addr_X [] 20005 True) \<noteq> None \<and>
   stateDB (modifyAllowListPrecompile_Run example_params example_state addr_X addr_X [] 20005 True) =
     example_state \<and>
   err (modifyAllowListPrecompile_Run example_params example_state addr_Z addr_X [] 20005 False) \<noteq> None \<and>
   stateDB (modifyAllowListPrecompile_Run example_params example_state addr_Z addr_X [] 20005 False) =
     example_state \<and>
   err (modifyAllowListPrecompile_Run example_params example_state addr_X addr_X [] 20005 False) \<noteq> None \<and>
   stateDB (modifyAllowListPrecompile_Run example_params example_state addr_X addr_X [] 20005 False) =
     example_state \<and>
   err (modifyAllowListPrecompile_Run example_params example_state addr_X addr_X
     (Address_Bytes addr_Y @ Hash_Bytes Deployer) 20005 False) = None \<and>
   (\<exists>a s. stateDB (modifyAllowListPrecompile_Run example_params example_state addr_X addr_X
       (Address_Bytes addr_Y @ Hash_Bytes Deployer) 20005 False) =
     example_state((ModifyAllowListAddress example_params, CreateAddressKey a) \<mapsto> s))"
proof -
  have low: "(5::64 word) < ModifyAllowListGasCost example_params"
    and gas: "ModifyAllowListGasCost example_params \<le> 20005"
    by (simp_all add: example_params_def)
  have z: "\<not> IsAdmin (GetAllowListStatus example_params example_state addr_Z)"
    by (simp add: status_Z IsAdmin_def roles_distinct)
  have un: "UnpackModifyAllowList [] = Inl (UnexpectedLength 0 52)"
    by (simp add: UnpackModifyAllowList_def modifyAllowListInputLength_def AddressLength_def
        HashLength_def)
  have e1: "err (modifyAllowListPrecompile_Run example_params example_state addr_X addr_X [] 5 False)
      \<noteq> None"
    by (simp add: modify_Run_gas_low [OF low])
  have e2: "err (modifyAllowListPrecompile_Run example_params example_state addr_X addr_X [] 20005 True)
      \<noteq> None"
    by (simp add: modify_Run_readOnly [OF gas])
  have e3: "err (modifyAllowListPrecompile_Run example_params example_state addr_Z addr_X [] 20005 False)
      \<noteq> None"
    by (simp add: modify_Run_not_admin [OF gas z])
  have e4: "err (modifyAllowListPrecompile_Run example_params example_state addr_X addr_X [] 20005 False)
      \<noteq> None"
    by (simp add: modify_Run_admin [OF gas status_X] un)
  have e5: "err (modifyAllowListPrecompile_Run example_params example_state addr_X addr_X
     (Address_Bytes addr_Y @ Hash_Bytes Deployer) 20005 False) = None"
    by (simp add: modify_Run_admin [OF gas status_X] UnpackModifyAllowList_encoding Valid_roles)
  note c6 = C6_errors_leave_state [where p = example_params and evm = example_state
      and addr = addr_X]
  from e1 e2 e3 e4 e5
    c6 [where callerAddr = addr_X and input = "[]" and suppliedGas = 5 and readOnly = False]
    c6 [where callerAddr = addr_X and input = "[]" and suppliedGas = 20005 and readOnly = True]
    c6 [where callerAddr = addr_Z and input = "[]" and suppliedGas = 20005 and readOnly = False]
    c6 [where callerAddr = addr_X and input = "[]" and suppliedGas = 20005 and readOnly = False]
    c6 [where callerAddr = addr_X and input = "Address_Bytes addr_Y @ Hash_Bytes Deployer"
      and suppliedGas = 20005 and readOnly = False]
  show ?thesis
    by blast
qed

text \<open>
  C7. For both precompiles and every input: when the supplied gas is strictly below the
  cost of the entry point, the call fails (with InsufficientGas) and the remaining gas is 0; otherwise, on
  success and on failure alike, the remaining gas is the supplied gas minus that cost.
\<close>

theorem C7_gas_accounting:
  "(suppliedGas < ModifyAllowListGasCost p \<longrightarrow>
      err (modifyAllowListPrecompile_Run p evm callerAddr addr input suppliedGas readOnly) =
        Some InsufficientGas \<and>
      remainingGas (modifyAllowListPrecompile_Run p evm callerAddr addr input suppliedGas readOnly) = 0) \<and>
   (\<not> suppliedGas < ModifyAllowListGasCost p \<longrightarrow>
      remainingGas (modifyAllowListPrecompile_Run p evm callerAddr addr input suppliedGas readOnly) =
        suppliedGas - ModifyAllowListGasCost p) \<and>
   (suppliedGas < ReadAllowListGasCost p \<longrightarrow>
      err (readAllowListPrecompile_Run p evm callerAddr addr input suppliedGas readOnly) =
        Some InsufficientGas \<and>
      remainingGas (readAllowListPrecompile_Run p evm callerAddr addr input suppliedGas readOnly) = 0) \<and>
   (\<not> suppliedGas < ReadAllowListGasCost p \<longrightarrow>
      remainingGas (readAllowListPrecompile_Run p evm callerAddr addr input suppliedGas readOnly) =
        suppliedGas - ReadAllowListGasCost p)"
proof (intro conjI impI)
  assume "suppliedGas < ModifyAllowListGasCost p"
  then show "err (modifyAllowListPrecompile_Run p evm callerAddr addr input suppliedGas readOnly) =
      Some InsufficientGas"
    and "remainingGas (modifyAllowListPrecompile_Run p evm callerAddr addr input suppliedGas
      readOnly) = 0"
    by (simp_all add: modify_Run_gas_low)
next
  assume "\<not> suppliedGas < ModifyAllowListGasCost p"
  then show "remainingGas (modifyAllowListPrecompile_Run p evm callerAddr addr input suppliedGas
      readOnly) = suppliedGas - ModifyAllowListGasCost p"
    by (simp add: modifyAllowListPrecompile_Run_def Let_def split: sum.splits)
next
  assume "suppliedGas < ReadAllowListGasCost p"
  then show "err (readAllowListPrecompile_Run p evm callerAddr addr input suppliedGas readOnly) =
      Some InsufficientGas"
    and "remainingGas (readAllowListPrecompile_Run p evm callerAddr addr input suppliedGas
      readOnly) = 0"
    by (simp_all add: read_Run_gas_low)
next
  assume "\<not> suppliedGas < ReadAllowListGasCost p"
  then show "remainingGas (readAllowListPrecompile_Run p evm callerAddr addr input suppliedGas
      readOnly) = suppliedGas - ReadAllowListGasCost p"
    by (simp add: readAllowListPrecompile_Run_def Let_def)
qed

theorem C7_gas_accounting_witness:
  "(4999::64 word) < ModifyAllowListGasCost example_params \<and>
   err (modifyAllowListPrecompile_Run example_params example_state addr_X addr_X
     (Address_Bytes addr_Y @ Hash_Bytes Deployer) 4999 False) = Some InsufficientGas \<and>
   remainingGas (modifyAllowListPrecompile_Run example_params example_state addr_X addr_X
     (Address_Bytes addr_Y @ Hash_Bytes Deployer) 4999 False) = 0 \<and>
   (4999::64 word) < ReadAllowListGasCost example_params \<and>
   err (readAllowListPrecompile_Run example_params example_state addr_X addr_X
     (Address_Bytes addr_Y @ Hash_Bytes Deployer) 4999 False) = Some InsufficientGas \<and>
   remainingGas (readAllowListPrecompile_Run example_params example_state addr_X addr_X
     (Address_Bytes addr_Y @ Hash_Bytes Deployer) 4999 False) = 0 \<and>
   \<not> (20007::64 word) < ModifyAllowListGasCost example_params \<and>
   remainingGas (modifyAllowListPrecompile_Run example_params example_state addr_Z addr_X
     (Address_Bytes addr_Y) 20007 True) = 7 \<and>
   \<not> (20007::64 word) < ReadAllowListGasCost example_params \<and>
   remainingGas (readAllowListPrecompile_Run example_params example_state addr_Z addr_X
     (Address_Bytes addr_Y) 20007 True) = 15007"
proof -
  have low: "(4999::64 word) < ModifyAllowListGasCost example_params"
    "(4999::64 word) < ReadAllowListGasCost example_params"
    and high: "\<not> (20007::64 word) < ModifyAllowListGasCost example_params"
    "\<not> (20007::64 word) < ReadAllowListGasCost example_params"
    by (simp_all add: example_params_def)
  have rem: "(20007::64 word) - ModifyAllowListGasCost example_params = 7"
    "(20007::64 word) - ReadAllowListGasCost example_params = 15007"
    by (simp_all add: example_params_def)
  note c7 = C7_gas_accounting [where p = example_params and evm = example_state
      and addr = addr_X]
  from low high
    c7 [where callerAddr = addr_X and input = "Address_Bytes addr_Y @ Hash_Bytes Deployer"
      and suppliedGas = 4999 and readOnly = False]
    c7 [where callerAddr = addr_Z and input = "Address_Bytes addr_Y"
      and suppliedGas = 20007 and readOnly = True]
  show ?thesis
    by (simp add: rem)
qed

text \<open>
  C8. For every input of exactly \<open>AddressLength\<close> bytes and a supplied gas that
  covers \<^verbatim>\<open>ReadAllowListGasCost\<close>, the read precompile succeeds whatever the
  read-only flag is, returns the \<open>HashLength\<close> bytes of the role stored for the
  address the input spells (the bytes of None when the slot of that address is unset),
  and leaves the state as it was.
\<close>

theorem C8_read_role:
  assumes "length input = AddressLength"
    and "ReadAllowListGasCost p \<le> suppliedGas"
  shows "readAllowListPrecompile_Run p evm callerAddr addr input suppliedGas readOnly =
      \<lparr>ret = Hash_Bytes (GetAllowListStatus p evm (BytesToAddress input)),
       remainingGas = suppliedGas - ReadAllowListGasCost p, err = None, stateDB = evm\<rparr> \<and>
    Address_Bytes (BytesToAddress input) = input \<and>
    length (ret (readAllowListPrecompile_Run p evm callerAddr addr input suppliedGas readOnly)) =
      HashLength \<and>
    (evm (ModifyAllowListAddress p, CreateAddressKey (BytesToAddress input)) = None \<longrightarrow>
      ret (readAllowListPrecompile_Run p evm callerAddr addr input suppliedGas readOnly) =
        Hash_Bytes None_role)"
proof -
  have run: "readAllowListPrecompile_Run p evm callerAddr addr input suppliedGas readOnly =
      \<lparr>ret = Hash_Bytes (GetAllowListStatus p evm (BytesToAddress input)),
       remainingGas = suppliedGas - ReadAllowListGasCost p, err = None, stateDB = evm\<rparr>"
    using assms by (simp add: read_Run_enough AddressLength_def)
  have dec: "Address_Bytes (BytesToAddress input) = input"
    using assms(1) by (simp add: Address_Bytes_def BytesToAddress_exact AddressLength_def)
  have len: "length (ret (readAllowListPrecompile_Run p evm callerAddr addr input suppliedGas
      readOnly)) = HashLength"
    by (simp add: run Hash_Bytes_def length_Rep_hash HashLength_def)
  have unset: "evm (ModifyAllowListAddress p, CreateAddressKey (BytesToAddress input)) = None \<longrightarrow>
      ret (readAllowListPrecompile_Run p evm callerAddr addr input suppliedGas readOnly) =
        Hash_Bytes None_role"
    by (simp add: run GetAllowListStatus_eq)
  from run dec len unset show ?thesis by blast
qed

theorem C8_read_role_witness:
  "length (Address_Bytes addr_X) = AddressLength \<and>
   ReadAllowListGasCost example_params \<le> 5005 \<and>
   readAllowListPrecompile_Run example_params example_state addr_Z addr_Y
       (Address_Bytes addr_X) 5005 True =
     \<lparr>ret = 2 # replicate 31 0, remainingGas = 5, err = None, stateDB = example_state\<rparr> \<and>
   length (Address_Bytes addr_Y) = AddressLength \<and>
   example_state (ModifyAllowListAddress example_params, CreateAddressKey addr_Y) = None \<and>
   ret (readAllowListPrecompile_Run example_params example_state addr_Z addr_Y
       (Address_Bytes addr_Y) 5005 False) = replicate 32 0"
proof -
  have gas: "ReadAllowListGasCost example_params \<le> 5005"
    and rem: "(5005::64 word) - ReadAllowListGasCost example_params = 5"
    by (simp_all add: example_params_def)
  have lenX: "length (Address_Bytes addr_X) = AddressLength"
    and lenY: "length (Address_Bytes addr_Y) = AddressLength"
    by (simp_all add: Address_Bytes_def length_Rep_address AddressLength_def)
  have dec: "BytesToAddress (Address_Bytes addr_X) = addr_X"
    "BytesToAddress (Address_Bytes addr_Y) = addr_Y"
    by (simp_all add: Address_Bytes_def BytesToAddress_Rep)
  have unset: "example_state (ModifyAllowListAddress example_params, CreateAddressKey addr_Y) = None"
    by (simp add: example_state_eq CreateAddressKey_inject addr_distinct)
  from C8_read_role [OF lenX gas, of example_state addr_Z addr_Y True]
  have r1: "readAllowListPrecompile_Run example_params example_state addr_Z addr_Y
       (Address_Bytes addr_X) 5005 True =
     \<lparr>ret = 2 # replicate 31 0, remainingGas = 5, err = None, stateDB = example_state\<rparr>"
    by (simp add: dec status_X rem Hash_Bytes_def Rep_Admin)
  from C8_read_role [OF lenY gas, of example_state addr_Z addr_Y False] unset
  have r2: "ret (readAllowListPrecompile_Run example_params example_state addr_Z addr_Y
       (Address_Bytes addr_Y) 5005 False) = replicate 32 0"
    by (simp add: dec Hash_Bytes_def Rep_None_role status_Y)
  from lenX lenY gas unset r1 r2 show ?thesis by blast
qed

text \<open>
  C9. From a state in which every slot stored under the allow-list address holds a role
  that \<open>Valid\<close> accepts (or is unset), \<open>Configure\<close>, the modify precompile and the
  read precompile all lead to a state with the same property: \<open>Configure\<close> writes only
  Admin, and the modify precompile writes only a role that passed \<open>Valid\<close>.
\<close>

theorem C9_valid_roles_preserved:
  assumes "roles_valid p state"
  shows "roles_valid p (Configure p c state) \<and>
    roles_valid p
      (stateDB (modifyAllowListPrecompile_Run p state callerAddr addr input suppliedGas readOnly)) \<and>
    roles_valid p
      (stateDB (readAllowListPrecompile_Run p state callerAddr addr input suppliedGas readOnly))"
proof (intro conjI)
  from assms show "roles_valid p (Configure p c state)"
    by (simp add: Configure_def roles_valid_fold_Admin)
next
  let ?r = "modifyAllowListPrecompile_Run p state callerAddr addr input suppliedGas readOnly"
  from modify_Run_stateDB_cases [of p state callerAddr addr input suppliedGas readOnly]
  show "roles_valid p (stateDB ?r)"
  proof (elim disjE conjE exE)
    assume "stateDB ?r = state"
    with assms show ?thesis by simp
  next
    fix a s
    assume "Valid s"
      and "?r = \<lparr>ret = [], remainingGas = suppliedGas - ModifyAllowListGasCost p, err = None,
           stateDB = setAllowListStatus p state a s\<rparr>"
    with assms show ?thesis
      by (simp add: setAllowListStatus_eq roles_valid_update)
  qed
next
  from assms
  show "roles_valid p
      (stateDB (readAllowListPrecompile_Run p state callerAddr addr input suppliedGas readOnly))"
    by (simp add: read_Run_stateDB)
qed

theorem C9_valid_roles_preserved_witness:
  "roles_valid example_params Map.empty \<and>
   roles_valid example_params (Configure example_params example_config Map.empty) \<and>
   roles_valid example_params example_state \<and>
   roles_valid example_params
     (stateDB (modifyAllowListPrecompile_Run example_params example_state addr_X addr_X
        (Address_Bytes addr_Y @ Hash_Bytes Deployer) 20005 False)) \<and>
   stateDB (modifyAllowListPrecompile_Run example_params example_state addr_X addr_X
        (Address_Bytes addr_Y @ Hash_Bytes Deployer) 20005 False) \<noteq> example_state \<and>
   roles_valid example_params
     (stateDB (readAllowListPrecompile_Run example_params example_state addr_X addr_X
        (Address_Bytes addr_Y) 20005 False))"
proof -
  have e: "roles_valid example_params Map.empty"
    by (simp add: roles_valid_def)
  from C9_valid_roles_preserved [OF e, of example_config]
  have s: "roles_valid example_params example_state"
    by (simp add: example_state_def)
  have gas: "ModifyAllowListGasCost example_params \<le> 20005"
    by (simp add: example_params_def)
  have "stateDB (modifyAllowListPrecompile_Run example_params example_state addr_X addr_X
        (Address_Bytes addr_Y @ Hash_Bytes Deployer) 20005 False) =
      example_state((ModifyAllowListAddress example_params, CreateAddressKey addr_Y) \<mapsto> Deployer)"
    by (simp add: modify_Run_admin [OF gas status_X] UnpackModifyAllowList_encoding Valid_roles
        setAllowListStatus_eq)
  moreover have "example_state (ModifyAllowListAddress example_params, CreateAddressKey addr_Y) = None"
    by (simp add: example_state_eq CreateAddressKey_inject addr_distinct)
  ultimately have ne: "stateDB (modifyAllowListPrecompile_Run example_params example_state addr_X addr_X
        (Address_Bytes addr_Y @ Hash_Bytes Deployer) 20005 False) \<noteq> example_state"
    by (metis fun_upd_same option.distinct(1))
  from e s ne
    C9_valid_roles_preserved [OF s, of example_config addr_X addr_X
      "Address_Bytes addr_Y @ Hash_Bytes Deployer" 20005 False]
    C9_valid_roles_preserved [OF s, of example_config addr_X addr_X
      "Address_Bytes addr_Y" 20005 False]
  show ?thesis
    by (simp add: example_state_def)
qed

text \<open>
  C10. Writing a role \<open>r\<close> for an address \<open>a\<close> with \<open>setAllowListStatus\<close> and
  then reading the role of \<open>a\<close> with \<open>GetAllowListStatus\<close> gives \<open>r\<close> (for every
  role value, valid or not); the key of an address determines the address, and the write
  leaves the role of every other address as it was.
\<close>

theorem C10_set_get_round_trip:
  "GetAllowListStatus p (setAllowListStatus p state a r) a = r \<and>
   (CreateAddressKey a = CreateAddressKey b) = (a = b) \<and>
   (b \<noteq> a \<longrightarrow>
      GetAllowListStatus p (setAllowListStatus p state a r) b = GetAllowListStatus p state b)"
  by (simp add: GetAllowListStatus_eq setAllowListStatus_eq CreateAddressKey_inject)

theorem C10_set_get_round_trip_witness:
  "GetAllowListStatus example_params (setAllowListStatus example_params example_state addr_Y Deployer)
     addr_Y = Deployer \<and>
   addr_X \<noteq> addr_Y \<and>
   CreateAddressKey addr_X \<noteq> CreateAddressKey addr_Y \<and>
   GetAllowListStatus example_params (setAllowListStatus example_params example_state addr_Y Deployer)
     addr_X = Admin \<and>
   addr_Z \<noteq> addr_Y \<and>
   GetAllowListStatus example_params (setAllowListStatus example_params example_state addr_Y Deployer)
     addr_Z = None_role"
  using C10_set_get_round_trip [of example_params example_state addr_Y Deployer addr_X]
    C10_set_get_round_trip [of example_params example_state addr_Y Deployer addr_Z]
    addr_distinct status_X status_Z
  by auto

end
